theory Spec2Isabelle
  imports Complex_Main
begin

section \<open>Strings\<close>

text \<open>
  Python strings are modelled as \<open>string\<close> (lists of characters). Case mapping and
  whitespace are the ASCII ones: \<open>str.lower\<close> maps \<open>A..Z\<close> to \<open>a..z\<close> and leaves
  every other character alone; \<open>str.strip\<close> removes the characters for which
  \<open>str.isspace\<close> holds in the ASCII range (tab, line feed, vertical tab, form feed,
  carriage return, the separators 0x1C..0x1F and the space).
\<close>

definition lower_char :: "char \<Rightarrow> char" where
  "lower_char c =
     (case map_of (zip ''ABCDEFGHIJKLMNOPQRSTUVWXYZ'' ''abcdefghijklmnopqrstuvwxyz'') c of
        None \<Rightarrow> c
      | Some d \<Rightarrow> d)"

definition lower :: "string \<Rightarrow> string" where
  "lower s = map lower_char s"

definition is_space :: "char \<Rightarrow> bool" where
  "is_space c =
     (c \<in> set [CHR 0x09, CHR 0x0A, CHR 0x0B, CHR 0x0C, CHR 0x0D,
                CHR 0x1C, CHR 0x1D, CHR 0x1E, CHR 0x1F, CHR 0x20])"

definition strip :: "string \<Rightarrow> string" where
  "strip s = rev (dropWhile is_space (rev (dropWhile is_space s)))"

text \<open>\<open>starts_with p s\<close> is \<open>s.startswith(p)\<close>; \<open>contains p s\<close> is Python's \<open>p in s\<close>.\<close>

fun starts_with :: "string \<Rightarrow> string \<Rightarrow> bool" where
  "starts_with [] s = True"
| "starts_with (p # ps) [] = False"
| "starts_with (p # ps) (c # cs) = (p = c \<and> starts_with ps cs)"

fun contains :: "string \<Rightarrow> string \<Rightarrow> bool" where
  "contains p [] = (p = [])"
| "contains p (c # cs) = (starts_with p (c # cs) \<or> contains p cs)"

section \<open>The column resolver (\<open>_find_column\<close> of src/app.py)\<close>

text \<open>
  \<open>_find_column\<close> reads only \<open>df.columns\<close>, so the model takes the ordered list of
  column names. An Isabelle name cannot start with an underscore: \<open>_find_column\<close> is
  \<open>find_column\<close> here.

  \<open>lower_dict\<close> is the dict comprehension \<open>{c.lower(): c for c in df.columns}\<close>: a later
  column overwrites an earlier one with the same lowercased name.
\<close>

definition lower_dict :: "string list \<Rightarrow> (string \<rightharpoonup> string)" where
  "lower_dict columns = fold (\<lambda>c m. m(lower c \<mapsto> c)) columns Map.empty"

text \<open>First loop: \<open>for cand in candidates: if cand in lower: return lower[cand]\<close>.\<close>

fun exact_pass :: "(string \<rightharpoonup> string) \<Rightarrow> string list \<Rightarrow> string option" where
  "exact_pass lw [] = None"
| "exact_pass lw (cand # cands) =
     (case lw cand of Some c \<Rightarrow> Some c | None \<Rightarrow> exact_pass lw cands)"

text \<open>Inner loop of the second pass: \<open>for cand in candidates: if cand in col.lower()\<close>.\<close>

fun any_candidate_in :: "string \<Rightarrow> string list \<Rightarrow> bool" where
  "any_candidate_in col [] = False"
| "any_candidate_in col (cand # cands) =
     (if contains cand (lower col) then True else any_candidate_in col cands)"

text \<open>Outer loop of the second pass: \<open>for col in df.columns\<close>.\<close>

fun substring_pass :: "string list \<Rightarrow> string list \<Rightarrow> string option" where
  "substring_pass [] candidates = None"
| "substring_pass (col # cols) candidates =
     (if any_candidate_in col candidates then Some col else substring_pass cols candidates)"

definition find_column :: "string list \<Rightarrow> string list \<Rightarrow> string option" where
  "find_column columns candidates =
     (case exact_pass (lower_dict columns) candidates of
        Some c \<Rightarrow> Some c
      | None \<Rightarrow> substring_pass columns candidates)"

text \<open>The three fixed candidate lists of \<open>latency_check\<close>.\<close>

definition latency_candidates :: "string list" where
  "latency_candidates = [''latency_ms'', ''latency'', ''rtt'', ''ping_ms'', ''ping'']"

definition region_candidates :: "string list" where
  "region_candidates = [''region'', ''region_name'', ''area'', ''location'']"

definition uptime_candidates :: "string list" where
  "uptime_candidates = [''uptime'', ''availability'', ''up'', ''availability_pct'']"

section \<open>Numbers\<close>

text \<open>
  A Python float is either NaN or a finite number. Finite numbers are modelled by exact
  rationals: arithmetic is exact, not IEEE double rounding, and the infinities are left
  out. \<open>float_gt a b\<close> is \<open>a > b\<close>: false as soon as one side is NaN.
\<close>

datatype pyfloat = NaN | Fl rat

fun float_gt :: "pyfloat \<Rightarrow> pyfloat \<Rightarrow> bool" where
  "float_gt (Fl a) (Fl b) = (b < a)"
| "float_gt a b = False"

fun float_div :: "pyfloat \<Rightarrow> rat \<Rightarrow> pyfloat" where
  "float_div (Fl a) b = Fl (a / b)"
| "float_div NaN b = NaN"

text \<open>\<open>round(x, n)\<close>: to \<open>n\<close> decimal digits, ties to the even neighbour; NaN stays NaN.\<close>

definition round_half_even :: "rat \<Rightarrow> int" where
  "round_half_even x =
     (let f = \<lfloor>x\<rfloor>; d = x - of_int f
      in if d < 1 / 2 then f else if 1 / 2 < d then f + 1 else if even f then f else f + 1)"

fun py_round :: "pyfloat \<Rightarrow> nat \<Rightarrow> pyfloat" where
  "py_round NaN n = NaN"
| "py_round (Fl x) n = Fl (of_int (round_half_even (x * 10 ^ n)) / 10 ^ n)"

text \<open>\<open>str\<close> of a Python int.\<close>

fun str_nat :: "nat \<Rightarrow> string" where
  "str_nat n =
     (if n < 10 then [''0123456789'' ! n]
      else str_nat (n div 10) @ [''0123456789'' ! (n mod 10)])"

definition str_int :: "int \<Rightarrow> string" where
  "str_int i = (if i < 0 then CHR ''-'' # str_nat (nat (- i)) else str_nat (nat i))"

section \<open>The pandas objects the service uses\<close>

text \<open>
  A column (a pandas Series) carries its dtype: \<open>int64\<close>, \<open>float64\<close> or \<open>object\<close>. The cells
  of an object column read from a CSV file are strings or missing (\<open>None\<close>). A DataFrame
  is its row count (the length of its index) and its columns in table order.
  \<open>read_csv\<close> makes column names unique, so a name stands for one column.
\<close>

datatype column = IntCol "int list" | FloatCol "pyfloat list" | ObjCol "string option list"

record dataframe =
  nrows :: nat
  named_cols :: "(string \<times> column) list"

datatype error = HTTPException nat string | KeyError string | TypeError

text \<open>
  What the two library conversions do on a single cell is left open: \<open>parse_number\<close> is
  the numeric parser behind \<open>pd.to_numeric\<close> (\<open>None\<close> when the text is not a number) and
  \<open>float_repr\<close> is \<open>str\<close> of a finite float.
\<close>

datatype number = NumInt int | NumFloat pyfloat

record pandas_env =
  parse_number :: "string \<Rightarrow> number option"
  float_repr :: "rat \<Rightarrow> string"

fun col_len :: "column \<Rightarrow> nat" where
  "col_len (IntCol xs) = length xs"
| "col_len (FloatCol xs) = length xs"
| "col_len (ObjCol xs) = length xs"

definition df_columns :: "dataframe \<Rightarrow> string list" where
  "df_columns d = map fst (named_cols d)"

text \<open>\<open>df[name]\<close>: KeyError when there is no such column.\<close>

definition df_getitem :: "dataframe \<Rightarrow> string \<Rightarrow> error + column" where
  "df_getitem d name = (case map_of (named_cols d) name of None \<Rightarrow> Inl (KeyError name) | Some c \<Rightarrow> Inr c)"

text \<open>\<open>df[name] = c\<close>: replaces the column in place, or appends a new last column.\<close>

fun set_column :: "(string \<times> column) list \<Rightarrow> string \<Rightarrow> column \<Rightarrow> (string \<times> column) list" where
  "set_column [] name c = [(name, c)]"
| "set_column ((n, c0) # rest) name c =
     (if n = name then (n, c) # rest else (n, c0) # set_column rest name c)"

definition df_setitem :: "dataframe \<Rightarrow> string \<Rightarrow> column \<Rightarrow> dataframe" where
  "df_setitem d name c = d\<lparr>named_cols := set_column (named_cols d) name c\<rparr>"

text \<open>\<open>df[mask]\<close>: the rows where the boolean mask holds.\<close>

definition select :: "bool list \<Rightarrow> 'a list \<Rightarrow> 'a list" where
  "select keep xs = map snd (filter fst (zip keep xs))"

fun col_select :: "bool list \<Rightarrow> column \<Rightarrow> column" where
  "col_select keep (IntCol xs) = IntCol (select keep xs)"
| "col_select keep (FloatCol xs) = FloatCol (select keep xs)"
| "col_select keep (ObjCol xs) = ObjCol (select keep xs)"

definition bool_sum :: "bool list \<Rightarrow> nat" where
  "bool_sum keep = length (filter id keep)"

definition df_mask :: "dataframe \<Rightarrow> bool list \<Rightarrow> dataframe" where
  "df_mask d keep =
     \<lparr>nrows = bool_sum keep, named_cols = map (\<lambda>(n, c). (n, col_select keep c)) (named_cols d)\<rparr>"

text \<open>\<open>df.empty\<close>: one of the two axes has length 0.\<close>

definition df_empty :: "dataframe \<Rightarrow> bool" where
  "df_empty d = (nrows d = 0 \<or> named_cols d = [])"

text \<open>\<open>dtype == object\<close>.\<close>

fun is_object :: "column \<Rightarrow> bool" where
  "is_object (ObjCol xs) = True"
| "is_object c = False"

text \<open>
  \<open>pd.to_numeric(series, errors="coerce")\<close>: a numeric column is returned as it is; in an
  object column a cell that does not parse, or is missing, becomes NaN; the result is
  \<open>int64\<close> when every cell parsed as an integer and \<open>float64\<close> otherwise.
\<close>

fun number_float :: "number \<Rightarrow> pyfloat" where
  "number_float (NumInt i) = Fl (of_int i)"
| "number_float (NumFloat f) = f"

fun is_int :: "number \<Rightarrow> bool" where
  "is_int (NumInt i) = True"
| "is_int (NumFloat f) = False"

fun the_int :: "number \<Rightarrow> int" where
  "the_int (NumInt i) = i"
| "the_int (NumFloat f) = 0"

definition coerce_cell :: "pandas_env \<Rightarrow> string option \<Rightarrow> number" where
  "coerce_cell env cell =
     (case cell of
        None \<Rightarrow> NumFloat NaN
      | Some s \<Rightarrow> (case parse_number env s of None \<Rightarrow> NumFloat NaN | Some n \<Rightarrow> n))"

fun to_numeric :: "pandas_env \<Rightarrow> column \<Rightarrow> column" where
  "to_numeric env (IntCol xs) = IntCol xs"
| "to_numeric env (FloatCol xs) = FloatCol xs"
| "to_numeric env (ObjCol xs) =
     (let ns = map (coerce_cell env) xs
      in if list_all is_int ns then IntCol (map the_int ns) else FloatCol (map number_float ns))"

text \<open>\<open>series.astype(str)\<close>: a missing cell and NaN both print as \<open>nan\<close>.\<close>

fun float_str :: "pandas_env \<Rightarrow> pyfloat \<Rightarrow> string" where
  "float_str env NaN = ''nan''"
| "float_str env (Fl x) = float_repr env x"

fun astype_str :: "pandas_env \<Rightarrow> column \<Rightarrow> string list" where
  "astype_str env (IntCol xs) = map str_int xs"
| "astype_str env (FloatCol xs) = map (float_str env) xs"
| "astype_str env (ObjCol xs) = map (\<lambda>cell. case cell of None \<Rightarrow> ''nan'' | Some s \<Rightarrow> s) xs"

text \<open>\<open>series == key\<close> for a string key: a number never equals a string.\<close>

fun series_eq :: "column \<Rightarrow> string \<Rightarrow> bool list" where
  "series_eq (ObjCol xs) key = map (\<lambda>cell. cell = Some key) xs"
| "series_eq (IntCol xs) key = map (\<lambda>x. False) xs"
| "series_eq (FloatCol xs) key = map (\<lambda>x. False) xs"

text \<open>The numeric content of a column; arithmetic on a column of strings raises.\<close>

fun col_floats :: "column \<Rightarrow> error + pyfloat list" where
  "col_floats (IntCol xs) = Inr (map (\<lambda>i. Fl (of_int i)) xs)"
| "col_floats (FloatCol xs) = Inr xs"
| "col_floats (ObjCol xs) = Inl TypeError"

fun dropna :: "pyfloat list \<Rightarrow> rat list" where
  "dropna [] = []"
| "dropna (NaN # xs) = dropna xs"
| "dropna (Fl x # xs) = x # dropna xs"

text \<open>\<open>series.mean()\<close> skips NaN; the mean of no value is NaN.\<close>

definition mean_skipna :: "pyfloat list \<Rightarrow> pyfloat" where
  "mean_skipna vs =
     (let xs = dropna vs in if xs = [] then NaN else Fl (sum_list xs / of_nat (length xs)))"

definition series_mean :: "column \<Rightarrow> error + pyfloat" where
  "series_mean c = (case col_floats c of Inl e \<Rightarrow> Inl e | Inr vs \<Rightarrow> Inr (mean_skipna vs))"

text \<open>
  The percentile by linear interpolation of a sorted, non-empty list: with \<open>n\<close> values the
  position is \<open>(n - 1) * q\<close>, between the ranks \<open>lo\<close> and \<open>lo + 1\<close>.
\<close>

definition interpolate :: "rat list \<Rightarrow> rat \<Rightarrow> rat" where
  "interpolate xs q =
     (let pos = of_nat (length xs - 1) * q;
          lo = nat \<lfloor>pos\<rfloor>;
          hi = min (lo + 1) (length xs - 1)
      in xs ! lo + (xs ! hi - xs ! lo) * (pos - of_nat lo))"

text \<open>\<open>series.quantile(q)\<close> skips NaN (default interpolation: linear).\<close>

definition quantile_skipna :: "pyfloat list \<Rightarrow> rat \<Rightarrow> pyfloat" where
  "quantile_skipna vs q =
     (let xs = dropna vs in if xs = [] then NaN else Fl (interpolate (sort xs) q))"

definition series_quantile :: "column \<Rightarrow> rat \<Rightarrow> error + pyfloat" where
  "series_quantile c q =
     (case col_floats c of Inl e \<Rightarrow> Inl e | Inr vs \<Rightarrow> Inr (quantile_skipna vs q))"

text \<open>\<open>np.percentile(series, p)\<close> does not skip NaN: one NaN makes the result NaN.\<close>

definition np_percentile :: "column \<Rightarrow> rat \<Rightarrow> error + pyfloat" where
  "np_percentile c p =
     (case col_floats c of
        Inl e \<Rightarrow> Inl e
      | Inr vs \<Rightarrow>
          Inr (if NaN \<in> set vs \<or> vs = [] then NaN
               else Fl (interpolate (sort (dropna vs)) (p / 100))))"

text \<open>\<open>series > threshold\<close>, elementwise.\<close>

definition series_gt :: "column \<Rightarrow> pyfloat \<Rightarrow> error + bool list" where
  "series_gt c threshold =
     (case col_floats c of
        Inl e \<Rightarrow> Inl e
      | Inr vs \<Rightarrow> Inr (map (\<lambda>v. float_gt v threshold) vs))"

section \<open>The service of src/app.py\<close>

record metrics =
  avg_latency :: "pyfloat option"
  p95_latency :: "pyfloat option"
  avg_uptime :: "pyfloat option"
  breaches :: nat

record payload =
  regions :: "string list"
  threshold_ms :: pyfloat

text \<open>
  The module state. \<open>_df\<close> holds a reference to the loaded DataFrame, or \<open>None\<close>: it is
  \<open>df_global\<close>, an address into the store \<open>frames\<close> of DataFrame objects, of which the
  addresses below \<open>next_addr\<close> are allocated. \<open>_load_error\<close> is \<open>load_error\<close>.
\<close>

record state =
  df_global :: "nat option"
  load_error :: "string option"
  frames :: "nat \<Rightarrow> dataframe"
  next_addr :: nat

definition no_frame :: dataframe where
  "no_frame = \<lparr>nrows = 0, named_cols = []\<rparr>"

text \<open>
  Lines 24 to 30: \<open>try: _df = pd.read_csv(DATA_PATH)\<close>. The argument is what \<open>read_csv\<close>
  did: \<open>Inl msg\<close> when it raised an exception \<open>e\<close> with \<open>str(e) = msg\<close>, \<open>Inr d\<close> when it
  returned the table \<open>d\<close>.
\<close>

definition startup :: "string + dataframe \<Rightarrow> state" where
  "startup loaded =
     (case loaded of
        Inl msg \<Rightarrow>
          \<lparr>df_global = None, load_error = Some msg, frames = (\<lambda>a. no_frame), next_addr = 0\<rparr>
      | Inr d \<Rightarrow>
          \<lparr>df_global = Some 0, load_error = None, frames = (\<lambda>a. no_frame)(0 := d),
           next_addr = 1\<rparr>)"

text \<open>\<open>df.copy()\<close>: a new object with the same content.\<close>

definition df_copy :: "nat \<Rightarrow> state \<Rightarrow> nat \<times> state" where
  "df_copy a s =
     (next_addr s,
      s\<lparr>frames := (frames s)(next_addr s := frames s a), next_addr := next_addr s + 1\<rparr>)"

text \<open>\<open>df[name] = pd.to_numeric(df[name], errors="coerce")\<close>, on the object at \<open>a\<close>.\<close>

definition assign_numeric :: "pandas_env \<Rightarrow> nat \<Rightarrow> string \<Rightarrow> state \<Rightarrow> error + state" where
  "assign_numeric env a name s =
     (case df_getitem (frames s a) name of
        Inl e \<Rightarrow> Inl e
      | Inr c \<Rightarrow>
          Inr (s\<lparr>frames := (frames s)(a := df_setitem (frames s a) name (to_numeric env c))\<rparr>))"

text \<open>Lines 72 to 76: the normalised region column.\<close>

definition region_norm :: "pandas_env \<Rightarrow> column \<Rightarrow> column" where
  "region_norm env c =
     (if is_object c then ObjCol (map (\<lambda>v. Some (lower (strip v))) (astype_str env c))
      else ObjCol (map Some (astype_str env c)))"

definition assign_region_norm :: "pandas_env \<Rightarrow> nat \<Rightarrow> string \<Rightarrow> state \<Rightarrow> error + state" where
  "assign_region_norm env a region_col s =
     (case df_getitem (frames s a) region_col of
        Inl e \<Rightarrow> Inl e
      | Inr c \<Rightarrow>
          Inr (s\<lparr>frames :=
                 (frames s)(a := df_setitem (frames s a) ''_region_norm'' (region_norm env c))\<rparr>))"

definition no_data :: metrics where
  "no_data = \<lparr>avg_latency = None, p95_latency = None, avg_uptime = None, breaches = 0\<rparr>"

text \<open>Lines 98 to 103: the mean uptime, rescaled when it looks like a percentage.\<close>

definition uptime_of :: "dataframe \<Rightarrow> string option \<Rightarrow> error + pyfloat option" where
  "uptime_of region_df uptime_col =
     (case uptime_col of
        None \<Rightarrow> Inr None
      | Some uc \<Rightarrow>
          (case df_getitem region_df uc of
             Inl e \<Rightarrow> Inl e
           | Inr up \<Rightarrow>
               (case series_mean up of
                  Inl e \<Rightarrow> Inl e
                | Inr avg_uptime_raw \<Rightarrow>
                    Inr (Some (if float_gt avg_uptime_raw (Fl (3 / 2))
                               then float_div avg_uptime_raw 100
                               else avg_uptime_raw)))))"

text \<open>Lines 80 to 112: the body of the loop over the requested regions.\<close>

definition region_metrics ::
  "dataframe \<Rightarrow> string \<Rightarrow> string option \<Rightarrow> pyfloat \<Rightarrow> string \<Rightarrow> error + metrics" where
  "region_metrics df latency_col uptime_col threshold region =
     (let region_key = lower (strip region)
      in case df_getitem df ''_region_norm'' of
           Inl e \<Rightarrow> Inl e
         | Inr norm_col \<Rightarrow>
             (let region_df = df_mask df (series_eq norm_col region_key)
              in if df_empty region_df then Inr no_data
                 else
                   (case df_getitem region_df latency_col of
                      Inl e \<Rightarrow> Inl e
                    | Inr lat \<Rightarrow>
                   (case series_mean lat of
                      Inl e \<Rightarrow> Inl e
                    | Inr avg \<Rightarrow>
                   (case series_quantile lat (95 / 100) of
                      Inl e \<Rightarrow> Inl e
                    | Inr p95 \<Rightarrow>
                   (case uptime_of region_df uptime_col of
                      Inl e \<Rightarrow> Inl e
                    | Inr up \<Rightarrow>
                   (case series_gt lat threshold of
                      Inl e \<Rightarrow> Inl e
                    | Inr over \<Rightarrow>
                        Inr \<lparr>avg_latency = Some (py_round avg 3),
                             p95_latency = Some (py_round p95 3),
                             avg_uptime = map_option (\<lambda>u. py_round u 6) up,
                             breaches = bool_sum over\<rparr>)))))))"

fun region_loop ::
  "dataframe \<Rightarrow> string \<Rightarrow> string option \<Rightarrow> pyfloat \<Rightarrow> string list \<Rightarrow>
   (string \<rightharpoonup> metrics) \<Rightarrow> error + (string \<rightharpoonup> metrics)" where
  "region_loop df latency_col uptime_col threshold [] out = Inr out"
| "region_loop df latency_col uptime_col threshold (region # rest) out =
     (case region_metrics df latency_col uptime_col threshold region of
        Inl e \<Rightarrow> Inl e
      | Inr m \<Rightarrow> region_loop df latency_col uptime_col threshold rest (out(region \<mapsto> m)))"

text \<open>An f-string field prints \<open>None\<close> as the text \<open>None\<close>.\<close>

definition format_opt :: "string option \<Rightarrow> string" where
  "format_opt v = (case v of None \<Rightarrow> ''None'' | Some t \<Rightarrow> t)"

definition latency_missing :: error where
  "latency_missing =
     HTTPException 400
       ''Could not detect latency column (expected names: latency_ms, latency, rtt, ping_ms)''"

definition region_missing :: error where
  "region_missing =
     HTTPException 400
       ''Could not detect region column (expected names: region, region_name, area)''"

text \<open>
  \<open>latency_check\<close> returns what the request gets (\<open>Inl\<close>: the exception raised) and the
  state it leaves behind.
\<close>

definition latency_check ::
  "pandas_env \<Rightarrow> payload \<Rightarrow> state \<Rightarrow> (error + (string \<rightharpoonup> metrics)) \<times> state" where
  "latency_check env p s =
     (case df_global s of
        None \<Rightarrow>
          (Inl (HTTPException 500 (''Telemetry CSV not loaded: '' @ format_opt (load_error s))), s)
      | Some g \<Rightarrow>
          (let (df, s1) = df_copy g s;
               columns = df_columns (frames s1 df);
               latency_col = find_column columns latency_candidates;
               region_col = find_column columns region_candidates;
               uptime_col = find_column columns uptime_candidates
           in case latency_col of
                None \<Rightarrow> (Inl latency_missing, s1)
              | Some lc \<Rightarrow>
             (case region_col of
                None \<Rightarrow> (Inl region_missing, s1)
              | Some rc \<Rightarrow>
             (case assign_numeric env df lc s1 of
                Inl e \<Rightarrow> (Inl e, s1)
              | Inr s2 \<Rightarrow>
             (case (case uptime_col of None \<Rightarrow> Inr s2 | Some uc \<Rightarrow> assign_numeric env df uc s2) of
                Inl e \<Rightarrow> (Inl e, s2)
              | Inr s3 \<Rightarrow>
             (case assign_region_norm env df rc s3 of
                Inl e \<Rightarrow> (Inl e, s3)
              | Inr s4 \<Rightarrow>
                  (region_loop (frames s4 df) lc uptime_col (threshold_ms p) (regions p) Map.empty,
                   s4)))))))"

section \<open>The service of src/api/app.py\<close>

text \<open>
  The JSON body: \<open>body.get("regions", [])\<close> and \<open>body.get("threshold_ms", 180)\<close> read two
  optional fields. The table \<open>telemetry\<close> is loaded when the module is imported, with no
  handler: when the load fails there is no service.
\<close>

record api_body =
  body_regions :: "string list option"
  body_threshold_ms :: "pyfloat option"

definition api_metrics :: "dataframe \<Rightarrow> pyfloat \<Rightarrow> error + metrics" where
  "api_metrics df threshold =
     (case df_getitem df ''latency_ms'' of
        Inl e \<Rightarrow> Inl e
      | Inr lat \<Rightarrow>
     (case series_mean lat of
        Inl e \<Rightarrow> Inl e
      | Inr avg \<Rightarrow>
     (case np_percentile lat 95 of
        Inl e \<Rightarrow> Inl e
      | Inr p95 \<Rightarrow>
     (case df_getitem df ''uptime'' of
        Inl e \<Rightarrow> Inl e
      | Inr up \<Rightarrow>
     (case series_mean up of
        Inl e \<Rightarrow> Inl e
      | Inr avg_up \<Rightarrow>
     (case series_gt lat threshold of
        Inl e \<Rightarrow> Inl e
      | Inr over \<Rightarrow>
          Inr \<lparr>avg_latency = Some (py_round avg 2),
               p95_latency = Some (py_round p95 2),
               avg_uptime = Some (py_round avg_up 3),
               breaches = bool_sum over\<rparr>))))))"

fun api_loop ::
  "dataframe \<Rightarrow> pyfloat \<Rightarrow> string list \<Rightarrow> (string \<rightharpoonup> metrics) \<Rightarrow>
   error + (string \<rightharpoonup> metrics)" where
  "api_loop telemetry threshold [] result = Inr result"
| "api_loop telemetry threshold (region # rest) result =
     (case df_getitem telemetry ''region'' of
        Inl e \<Rightarrow> Inl e
      | Inr rc \<Rightarrow>
          (let df = df_mask telemetry (series_eq rc region)
           in if df_empty df then api_loop telemetry threshold rest result
              else
                (case api_metrics df threshold of
                   Inl e \<Rightarrow> Inl e
                 | Inr m \<Rightarrow> api_loop telemetry threshold rest (result(region \<mapsto> m)))))"

definition check_latency :: "dataframe \<Rightarrow> api_body \<Rightarrow> error + (string \<rightharpoonup> metrics)" where
  "check_latency telemetry body =
     (let rs = (case body_regions body of None \<Rightarrow> [] | Some v \<Rightarrow> v);
          threshold = (case body_threshold_ms body of None \<Rightarrow> Fl 180 | Some v \<Rightarrow> v)
      in api_loop telemetry threshold rs Map.empty)"

section \<open>Notions used to state the properties\<close>

text \<open>The roles resolved on a table, as \<open>latency_check\<close> resolves them (lines 56 to 58).\<close>

definition latency_col :: "dataframe \<Rightarrow> string option" where
  "latency_col d = find_column (df_columns d) latency_candidates"

definition region_col :: "dataframe \<Rightarrow> string option" where
  "region_col d = find_column (df_columns d) region_candidates"

definition uptime_col :: "dataframe \<Rightarrow> string option" where
  "uptime_col d = find_column (df_columns d) uptime_candidates"

text \<open>The table a state holds, when the load succeeded.\<close>

definition loaded :: "state \<Rightarrow> dataframe option" where
  "loaded s = map_option (frames s) (df_global s)"

definition col_of :: "dataframe \<Rightarrow> string \<Rightarrow> column" where
  "col_of d name = (case map_of (named_cols d) name of None \<Rightarrow> ObjCol [] | Some c \<Rightarrow> c)"

fun num_values :: "column \<Rightarrow> pyfloat list" where
  "num_values (IntCol xs) = map (\<lambda>i. Fl (of_int i)) xs"
| "num_values (FloatCol xs) = xs"
| "num_values (ObjCol xs) = []"

text \<open>The coerced values of a column of the table, one per row.\<close>

definition coerced :: "pandas_env \<Rightarrow> dataframe \<Rightarrow> string \<Rightarrow> pyfloat list" where
  "coerced env d name = num_values (to_numeric env (col_of d name))"

text \<open>
  The normalised region key of each row. The region column is read after the latency
  and uptime columns were coerced, so it is read coerced when it is one of them.
\<close>

definition norm_strings :: "pandas_env \<Rightarrow> column \<Rightarrow> string list" where
  "norm_strings env c =
     (if is_object c then map (\<lambda>v. lower (strip v)) (astype_str env c) else astype_str env c)"

definition row_keys :: "pandas_env \<Rightarrow> dataframe \<Rightarrow> string list" where
  "row_keys env d =
     (case region_col d of
        None \<Rightarrow> []
      | Some rc \<Rightarrow>
          norm_strings env
            (if latency_col d = Some rc \<or> uptime_col d = Some rc
             then to_numeric env (col_of d rc) else col_of d rc))"

text \<open>The values of the rows whose key is \<open>key\<close>, in table order.\<close>

definition matched :: "string \<Rightarrow> string list \<Rightarrow> 'a list \<Rightarrow> 'a list" where
  "matched key ks vs = map snd (filter (\<lambda>kv. fst kv = key) (zip ks vs))"

text \<open>Every column has one cell per row.\<close>

definition wf_frame :: "dataframe \<Rightarrow> bool" where
  "wf_frame d = list_all (\<lambda>nc. col_len (snd nc) = nrows d) (named_cols d)"

text \<open>The working copy of a request after lines 66 to 76, and the entry of one region.\<close>

definition prepare ::
  "pandas_env \<Rightarrow> dataframe \<Rightarrow> string \<Rightarrow> string option \<Rightarrow> string \<Rightarrow> dataframe" where
  "prepare env d lc uco rc =
     (let d1 = df_setitem d lc (to_numeric env (col_of d lc));
          d2 = (case uco of
                  None \<Rightarrow> d1
                | Some uc \<Rightarrow> df_setitem d1 uc (to_numeric env (col_of d1 uc)))
      in df_setitem d2 ''_region_norm'' (region_norm env (col_of d2 rc)))"

definition rescale :: "pyfloat \<Rightarrow> pyfloat" where
  "rescale raw = (if float_gt raw (Fl (3 / 2)) then float_div raw 100 else raw)"

definition region_entry :: "pandas_env \<Rightarrow> dataframe \<Rightarrow> pyfloat \<Rightarrow> string \<Rightarrow> metrics" where
  "region_entry env d threshold region =
     (let key = lower (strip region);
          ks = row_keys env d;
          lat = matched key ks (coerced env d (case latency_col d of None \<Rightarrow> [] | Some lc \<Rightarrow> lc))
      in if key \<in> set ks
         then \<lparr>avg_latency = Some (py_round (mean_skipna lat) 3),
               p95_latency = Some (py_round (quantile_skipna lat (95 / 100)) 3),
               avg_uptime =
                 (case uptime_col d of
                    None \<Rightarrow> None
                  | Some uc \<Rightarrow>
                      Some (py_round (rescale (mean_skipna (matched key ks (coerced env d uc)))) 6)),
               breaches = length (filter (\<lambda>v. float_gt v threshold) lat)\<rparr>
         else no_data)"

text \<open>The entry of a response for a key: none when the request failed or the key is absent.\<close>

definition response_entry :: "error + (string \<rightharpoonup> metrics) \<Rightarrow> string \<Rightarrow> metrics option" where
  "response_entry res key = (case res of Inl e \<Rightarrow> None | Inr out \<Rightarrow> out key)"

text \<open>The requests of a process, served one after the other on the module state.\<close>

fun serve ::
  "pandas_env \<Rightarrow> payload list \<Rightarrow> state \<Rightarrow> (error + (string \<rightharpoonup> metrics)) list \<times> state" where
  "serve env [] s = ([], s)"
| "serve env (p # ps) s =
     (let (r, s1) = latency_check env p s;
          (rs, s2) = serve env ps s1
      in (r # rs, s2))"

section \<open>Example data\<close>

text \<open>
  An instance of the two library conversions, to run the examples: a text of decimal
  digits parses as an integer and nothing else parses; a whole float prints with one
  decimal place.
\<close>

definition digit_of :: "char \<Rightarrow> nat option" where
  "digit_of c = map_of (zip ''0123456789'' [0, 1, 2, 3, 4, 5, 6, 7, 8, 9]) c"

definition parse_digits :: "string \<Rightarrow> number option" where
  "parse_digits t =
     (if t \<noteq> [] \<and> list_all (\<lambda>c. digit_of c \<noteq> None) t
      then Some (NumInt (int (fold (\<lambda>c n. 10 * n + (case digit_of c of None \<Rightarrow> 0 | Some v \<Rightarrow> v)) t 0)))
      else None)"

definition sample_env :: pandas_env where
  "sample_env =
     \<lparr>parse_number = parse_digits,
      float_repr = (\<lambda>x. if of_int \<lfloor>x\<rfloor> = x then str_int \<lfloor>x\<rfloor> @ ''.0'' else ''?'')\<rparr>"

text \<open>The table of the end-to-end scenario of the specification.\<close>

definition scenario_table :: dataframe where
  "scenario_table =
     \<lparr>nrows = 2,
      named_cols =
        [(''region'', ObjCol [Some ''US-East '', Some ''us-east'']),
         (''latency_ms'', IntCol [100, 300]),
         (''uptime'', FloatCol [Fl (99 / 100), Fl 99])]\<rparr>"

text \<open>A table with five samples of one region, and one whose latency cells are texts.\<close>

definition five_table :: dataframe where
  "five_table =
     \<lparr>nrows = 5,
      named_cols =
        [(''Region'', ObjCol [Some ''eu'', Some ''eu'', Some ''eu'', Some ''eu'', Some ''eu'']),
         (''Latency'', IntCol [30, 10, 50, 20, 40])]\<rparr>"

definition text_table :: dataframe where
  "text_table =
     \<lparr>nrows = 3,
      named_cols =
        [(''area'', ObjCol [Some ''north'', Some ''north'', Some ''south'']),
         (''rtt'', ObjCol [Some ''n/a'', None, Some ''120'']),
         (''up'', FloatCol [Fl (1 / 2), Fl 1, Fl (3 / 4)])]\<rparr>"

text \<open>The table of the missing-role scenario.\<close>

definition no_role_table :: dataframe where
  "no_role_table =
     \<lparr>nrows = 1,
      named_cols = [(''timestamp'', IntCol [1700000000]), (''value'', FloatCol [Fl (5 / 2)])]\<rparr>"

section \<open>Facts about the column resolver\<close>

lemma find_SomeD: "List.find P xs = Some x \<Longrightarrow> x \<in> set xs \<and> P x"
  by (induction xs) (auto split: if_splits)

lemma find_snoc:
  "List.find P (xs @ [x]) = (case List.find P xs of Some y \<Rightarrow> Some y | None \<Rightarrow> if P x then Some x else None)"
  by (induction xs) auto

lemma lower_dict_fold:
  "fold (\<lambda>c m. m(lower c \<mapsto> c)) cols m0 k =
     (case List.find (\<lambda>c. lower c = k) (rev cols) of Some c \<Rightarrow> Some c | None \<Rightarrow> m0 k)"
proof -
  define f where "f = (\<lambda>c (m :: string \<rightharpoonup> string). m(lower c \<mapsto> c))"
  have "fold f cols m0 k =
     (case List.find (\<lambda>c. lower c = k) (rev cols) of Some c \<Rightarrow> Some c | None \<Rightarrow> m0 k)"
  proof (induction cols arbitrary: m0)
    case Nil
    show ?case by simp
  next
    case (Cons c cols)
    have "fold f (c # cols) m0 k = fold f cols (f c m0) k"
      by simp
    also have "\<dots> = (case List.find (\<lambda>c. lower c = k) (rev cols) of
                        Some c \<Rightarrow> Some c | None \<Rightarrow> f c m0 k)"
      by (rule Cons.IH)
    also have "\<dots> = (case List.find (\<lambda>c. lower c = k) (rev (c # cols)) of
                        Some c \<Rightarrow> Some c | None \<Rightarrow> m0 k)"
      by (simp add: f_def find_snoc split: option.splits)
    finally show ?case .
  qed
  then show ?thesis
    unfolding f_def .
qed

lemma lower_dict_find: "lower_dict cols k = List.find (\<lambda>c. lower c = k) (rev cols)"
  unfolding lower_dict_def lower_dict_fold by (simp split: option.splits)

lemma lower_dict_None_iff: "lower_dict cols k = None \<longleftrightarrow> \<not> (\<exists>col\<in>set cols. lower col = k)"
  by (auto simp: lower_dict_find find_None_iff)

lemma exact_pass_lower_dict:
  "exact_pass (lower_dict cols) cands =
     (case List.find (\<lambda>cand. \<exists>col\<in>set cols. lower col = cand) cands of
        Some cand \<Rightarrow> List.find (\<lambda>col. lower col = cand) (rev cols)
      | None \<Rightarrow> None)"
proof (induction cands)
  case Nil
  show ?case by simp
next
  case (Cons cand cands)
  show ?case
  proof (cases "lower_dict cols cand")
    case None
    then have "\<not> (\<exists>col\<in>set cols. lower col = cand)"
      using lower_dict_None_iff [of cols cand] by blast
    then show ?thesis
      using Cons.IH by (simp add: None)
  next
    case (Some c)
    then have "\<exists>col\<in>set cols. lower col = cand"
      using lower_dict_None_iff [of cols cand] by auto
    with Some show ?thesis
      by (simp add: lower_dict_find)
  qed
qed

lemma any_candidate_in_iff:
  "any_candidate_in col cands = (\<exists>cand\<in>set cands. contains cand (lower col))"
  by (induction cands) auto

lemma substring_pass_find:
  "substring_pass cols cands =
     List.find (\<lambda>col. \<exists>cand\<in>set cands. contains cand (lower col)) cols"
  by (induction cols) (auto simp: any_candidate_in_iff)

text \<open>
  What \<open>find_column\<close> returns: the column of the first candidate, in priority order, that
  equals a lowercased column name (the last such column in table order); when there is none,
  the first column in table order whose lowercased name contains some candidate.
\<close>

lemma find_column_char:
  "find_column cols cands =
     (case List.find (\<lambda>cand. \<exists>col\<in>set cols. lower col = cand) cands of
        Some cand \<Rightarrow> List.find (\<lambda>col. lower col = cand) (rev cols)
      | None \<Rightarrow> List.find (\<lambda>col. \<exists>cand\<in>set cands. contains cand (lower col)) cols)"
proof (cases "List.find (\<lambda>cand. \<exists>col\<in>set cols. lower col = cand) cands")
  case None
  then show ?thesis
    by (simp add: find_column_def exact_pass_lower_dict substring_pass_find)
next
  case (Some cand)
  then have "\<exists>col\<in>set cols. lower col = cand"
    by (auto simp: find_Some_iff)
  then have "List.find (\<lambda>col. lower col = cand) (rev cols) \<noteq> None"
    by (auto simp: find_None_iff)
  with Some show ?thesis
    by (auto simp: find_column_def exact_pass_lower_dict)
qed

lemma starts_with_self: "starts_with s s"
  by (induction s) auto

lemma contains_self: "contains s s"
  by (cases s) (auto simp: starts_with_self)

lemma find_column_SomeD:
  assumes "find_column cs cands = Some c"
  shows "c \<in> set cs" and "\<exists>cand\<in>set cands. contains cand (lower c)"
proof -
  have "c \<in> set cs \<and> (\<exists>cand\<in>set cands. contains cand (lower c))"
  proof (cases "List.find (\<lambda>cand. \<exists>col\<in>set cs. lower col = cand) cands")
    case None
    with assms have "List.find (\<lambda>col. \<exists>cand\<in>set cands. contains cand (lower col)) cs = Some c"
      by (simp add: find_column_char)
    from find_SomeD [OF this] show ?thesis
      by simp
  next
    case (Some cand)
    with assms have "List.find (\<lambda>col. lower col = cand) (rev cs) = Some c"
      by (simp add: find_column_char)
    from find_SomeD [OF this] have "c \<in> set cs" "lower c = cand"
      by simp_all
    moreover from find_SomeD [OF Some] have "cand \<in> set cands"
      by simp
    ultimately show ?thesis
      using contains_self [of cand] by auto
  qed
  then show "c \<in> set cs" and "\<exists>cand\<in>set cands. contains cand (lower c)"
    by simp_all
qed

lemma lower_region_norm: "lower ''_region_norm'' = ''_region_norm''"
  by (simp add: lower_def lower_char_def)

lemma latency_not_region_norm:
  "find_column cs latency_candidates = Some c \<Longrightarrow> c \<noteq> ''_region_norm''"
proof
  assume "find_column cs latency_candidates = Some c" and "c = ''_region_norm''"
  then have "\<exists>cand\<in>set latency_candidates. contains cand ''_region_norm''"
    using find_column_SomeD(2) [of cs latency_candidates c] by (simp add: lower_region_norm)
  then show False
    by (simp add: latency_candidates_def)
qed

lemma uptime_not_region_norm:
  "find_column cs uptime_candidates = Some c \<Longrightarrow> c \<noteq> ''_region_norm''"
proof
  assume "find_column cs uptime_candidates = Some c" and "c = ''_region_norm''"
  then have "\<exists>cand\<in>set uptime_candidates. contains cand ''_region_norm''"
    using find_column_SomeD(2) [of cs uptime_candidates c] by (simp add: lower_region_norm)
  then show False
    by (simp add: uptime_candidates_def)
qed

section \<open>Facts about tables and columns\<close>

lemma map_of_set_column:
  "map_of (set_column xs n c) k = (if k = n then Some c else map_of xs k)"
  by (induction xs n c rule: set_column.induct) auto

lemma getitem_setitem:
  "df_getitem (df_setitem d n c) k = (if k = n then Inr c else df_getitem d k)"
  by (simp add: df_getitem_def df_setitem_def map_of_set_column)

lemma col_of_setitem:
  "col_of (df_setitem d n c) k = (if k = n then c else col_of d k)"
  by (simp add: col_of_def df_setitem_def map_of_set_column)

lemma getitem_col_of:
  "name \<in> set (df_columns d) \<Longrightarrow> df_getitem d name = Inr (col_of d name)"
proof -
  assume "name \<in> set (df_columns d)"
  then have "map_of (named_cols d) name \<noteq> None"
    by (simp add: df_columns_def map_of_eq_None_iff)
  then show ?thesis
    by (auto simp: df_getitem_def col_of_def)
qed

lemma columns_setitem:
  "set (df_columns (df_setitem d n c)) = insert n (set (df_columns d))"
proof -
  have "fst ` set (set_column xs n c) = insert n (fst ` set xs)" for xs
    by (induction xs n c rule: set_column.induct) auto
  then show ?thesis
    by (simp add: df_columns_def df_setitem_def)
qed

lemma getitem_mask:
  "df_getitem (df_mask d keep) k =
     (case df_getitem d k of Inl e \<Rightarrow> Inl e | Inr c \<Rightarrow> Inr (col_select keep c))"
proof -
  have "map_of (map (\<lambda>(n, c). (n, col_select keep c)) xs) k = map_option (col_select keep) (map_of xs k)"
    for xs :: "(string \<times> column) list"
    by (induction xs) auto
  then show ?thesis
    by (simp add: df_getitem_def df_mask_def split: option.splits)
qed

lemma to_numeric_idem: "to_numeric env (to_numeric env c) = to_numeric env c"
  by (cases c) (simp_all add: Let_def)

lemma col_floats_to_numeric:
  "col_floats (to_numeric env c) = Inr (num_values (to_numeric env c))"
  by (cases c) (simp_all add: Let_def)

lemma col_len_to_numeric: "col_len (to_numeric env c) = col_len c"
  by (cases c) (simp_all add: Let_def)

lemma length_num_values_to_numeric: "length (num_values (to_numeric env c)) = col_len c"
  by (cases c) (simp_all add: Let_def)

lemma length_norm_strings: "length (norm_strings env c) = col_len c"
  by (cases c) (simp_all add: norm_strings_def)

lemma region_norm_strings: "region_norm env c = ObjCol (map Some (norm_strings env c))"
  by (simp add: region_norm_def norm_strings_def)

lemma series_eq_keys: "series_eq (ObjCol (map Some ks)) key = map (\<lambda>k. k = key) ks"
  by simp

lemma select_matched: "select (map (\<lambda>k. k = key) ks) vs = matched key ks vs"
proof (induction ks arbitrary: vs)
  case Nil
  show ?case by (simp add: select_def matched_def)
next
  case (Cons k ks)
  then show ?case
    by (cases vs) (auto simp: select_def matched_def)
qed

lemma select_map: "select keep (map f xs) = map f (select keep xs)"
proof (induction keep arbitrary: xs)
  case Nil
  show ?case by (simp add: select_def)
next
  case (Cons b keep)
  then show ?case
    by (cases xs) (auto simp: select_def)
qed

lemma num_values_select:
  "col_floats c = Inr vs \<Longrightarrow> col_floats (col_select keep c) = Inr (select keep vs)"
  by (cases c) (auto simp: select_map)

lemma bool_sum_map: "bool_sum (map P vs) = length (filter P vs)"
  by (simp add: bool_sum_def filter_map o_def)

lemma bool_sum_keys: "bool_sum (map (\<lambda>k. k = key) ks) = 0 \<longleftrightarrow> key \<notin> set ks"
  by (auto simp: bool_sum_map filter_empty_conv)

lemma wf_col_len:
  assumes "wf_frame d" and "c \<in> set (df_columns d)"
  shows "col_len (col_of d c) = nrows d"
proof -
  from assms(2) have "map_of (named_cols d) c \<noteq> None"
    by (simp add: df_columns_def map_of_eq_None_iff)
  then obtain x where x: "map_of (named_cols d) c = Some x"
    by blast
  then have "(c, x) \<in> set (named_cols d)"
    by (rule map_of_SomeD)
  with assms(1) have "col_len x = nrows d"
    by (auto simp: wf_frame_def list_all_iff)
  with x show ?thesis
    by (simp add: col_of_def)
qed

lemma length_coerced:
  assumes "wf_frame d" and "c \<in> set (df_columns d)"
  shows "length (coerced env d c) = nrows d"
  using wf_col_len [OF assms] by (simp add: coerced_def length_num_values_to_numeric)

lemma length_row_keys:
  assumes "wf_frame d" and "region_col d = Some rc"
  shows "length (row_keys env d) = nrows d"
proof -
  have "rc \<in> set (df_columns d)"
    using assms(2) find_column_SomeD(1) by (simp add: region_col_def)
  from wf_col_len [OF assms(1) this] show ?thesis
    by (simp add: row_keys_def assms(2) length_norm_strings col_len_to_numeric)
qed

lemma length_filter_matched:
  assumes "length ks = n" and "length vs = n"
  shows "length (filter P (matched key ks vs)) = card {i. i < n \<and> ks ! i = key \<and> P (vs ! i)}"
proof -
  have "length (filter P (matched key ks vs)) =
          length (filter (\<lambda>kv. fst kv = key \<and> P (snd kv)) (zip ks vs))"
    by (simp add: matched_def filter_map o_def conj_commute)
  also have "\<dots> = card {i. i < length (zip ks vs) \<and>
                           fst (zip ks vs ! i) = key \<and> P (snd (zip ks vs ! i))}"
    by (simp add: length_filter_conv_card)
  also have "{i. i < length (zip ks vs) \<and> fst (zip ks vs ! i) = key \<and> P (snd (zip ks vs ! i))} =
             {i. i < n \<and> ks ! i = key \<and> P (vs ! i)}"
    using assms by auto
  finally show ?thesis .
qed

lemma dropna_all_nan: "list_all (\<lambda>v. v = NaN) vs \<Longrightarrow> dropna vs = []"
  by (induction vs) auto

lemma upper_rank_in_range:
  fixes n :: nat
  assumes "2 \<le> n"
  shows "nat \<lfloor>(of_nat (n - 1) :: rat) * (95 / 100)\<rfloor> + 1 < n"
proof -
  have "(of_nat (n - 1) :: rat) * (95 / 100) < of_nat (n - 1)"
    using assms by simp
  then have "\<lfloor>(of_nat (n - 1) :: rat) * (95 / 100)\<rfloor> < int (n - 1)"
    by (simp add: floor_less_iff)
  then show ?thesis
    using assms by linarith
qed

lemma interpolate_ranks:
  assumes "xs \<noteq> []"
  shows "interpolate xs (95 / 100) =
           (let pos = of_nat (length xs - 1) * (95 / 100); lo = nat \<lfloor>pos\<rfloor>
            in if length xs = 1 then xs ! 0
               else xs ! lo + (xs ! (lo + 1) - xs ! lo) * (pos - of_nat lo))"
proof -
  define pos :: rat where "pos = of_nat (length xs - 1) * (95 / 100)"
  define lo where "lo = nat \<lfloor>pos\<rfloor>"
  have unfolded: "interpolate xs (95 / 100) =
      xs ! lo + (xs ! min (lo + 1) (length xs - 1) - xs ! lo) * (pos - of_nat lo)"
    unfolding interpolate_def Let_def pos_def lo_def ..
  show ?thesis
  proof (cases "length xs = 1")
    case True
    then have "pos = 0" "lo = 0"
      by (simp_all add: pos_def lo_def)
    with True unfolded show ?thesis
      unfolding Let_def pos_def [symmetric] lo_def [symmetric] by simp
  next
    case False
    moreover from assms have "length xs \<noteq> 0"
      by simp
    ultimately have "2 \<le> length xs"
      by linarith
    from upper_rank_in_range [OF this] have "lo + 1 < length xs"
      by (simp only: lo_def pos_def)
    then have "min (lo + 1) (length xs - 1) = lo + 1"
      by simp
    with False unfolded show ?thesis
      unfolding Let_def pos_def [symmetric] lo_def [symmetric] by simp
  qed
qed

section \<open>What a request computes\<close>

text \<open>
  A request on a loaded table whose latency and region roles resolve never raises: its
  working copy is \<open>prepare\<close>, and the response maps every requested key to its
  \<open>region_entry\<close>.
\<close>

lemma assign_numeric_ok:
  "name \<in> set (df_columns (frames s a)) \<Longrightarrow>
   assign_numeric env a name s =
     Inr (s\<lparr>frames := (frames s)(a := df_setitem (frames s a) name
                                        (to_numeric env (col_of (frames s a) name)))\<rparr>)"
  by (simp add: assign_numeric_def getitem_col_of)

lemma assign_region_norm_ok:
  "name \<in> set (df_columns (frames s a)) \<Longrightarrow>
   assign_region_norm env a name s =
     Inr (s\<lparr>frames := (frames s)(a := df_setitem (frames s a) ''_region_norm''
                                        (region_norm env (col_of (frames s a) name)))\<rparr>)"
  by (simp add: assign_region_norm_def getitem_col_of)

lemma latency_check_prepare:
  assumes g: "df_global s = Some g"
    and lc: "latency_col (frames s g) = Some lc"
    and rc: "region_col (frames s g) = Some rc"
  shows "latency_check env p s =
           (region_loop (prepare env (frames s g) lc (uptime_col (frames s g)) rc) lc
              (uptime_col (frames s g)) (threshold_ms p) (regions p) Map.empty,
            s\<lparr>frames := (frames s)(next_addr s :=
                   prepare env (frames s g) lc (uptime_col (frames s g)) rc),
              next_addr := next_addr s + 1\<rparr>)"
proof -
  define d where "d = frames s g"
  define a where "a = next_addr s"
  define s1 where "s1 = s\<lparr>frames := (frames s)(a := d), next_addr := a + 1\<rparr>"
  define d1 where "d1 = df_setitem d lc (to_numeric env (col_of d lc))"
  define s2 where "s2 = s1\<lparr>frames := (frames s1)(a := d1)\<rparr>"
  define d2 where "d2 = (case uptime_col d of None \<Rightarrow> d1
     | Some uc \<Rightarrow> df_setitem d1 uc (to_numeric env (col_of d1 uc)))"
  define s3 where "s3 = s2\<lparr>frames := (frames s2)(a := d2)\<rparr>"
  define d3 where "d3 = df_setitem d2 ''_region_norm'' (region_norm env (col_of d2 rc))"
  define s4 where "s4 = s3\<lparr>frames := (frames s3)(a := d3)\<rparr>"
  have copy: "df_copy g s = (a, s1)"
    by (simp add: df_copy_def a_def s1_def d_def)
  have f1: "frames s1 a = d"
    by (simp add: s1_def)
  have lc_mem: "lc \<in> set (df_columns d)"
    using lc find_column_SomeD(1) by (simp add: latency_col_def d_def)
  have rc_mem: "rc \<in> set (df_columns d)"
    using rc find_column_SomeD(1) by (simp add: region_col_def d_def)
  have uc_mem: "uc \<in> set (df_columns d)" if "uptime_col d = Some uc" for uc
    using that find_column_SomeD(1) by (simp add: uptime_col_def)
  have step1: "assign_numeric env a lc s1 = Inr s2"
    using lc_mem by (simp add: assign_numeric_ok f1 s2_def d1_def)
  have f2: "frames s2 a = d1"
    by (simp add: s2_def)
  have cols1: "set (df_columns d1) = insert lc (set (df_columns d))"
    by (simp add: d1_def columns_setitem)
  have step2: "(case uptime_col d of None \<Rightarrow> Inr s2 | Some uc \<Rightarrow> assign_numeric env a uc s2) = Inr s3"
  proof (cases "uptime_col d")
    case None
    then show ?thesis
      by (simp add: s3_def d2_def s2_def)
  next
    case (Some uc)
    then have "uc \<in> set (df_columns (frames s2 a))"
      using uc_mem cols1 by (simp add: f2)
    then show ?thesis
      using Some by (simp add: assign_numeric_ok s3_def d2_def f2)
  qed
  have f3: "frames s3 a = d2"
    by (simp add: s3_def)
  have "rc \<in> set (df_columns d2)"
    using rc_mem cols1 by (auto simp: d2_def columns_setitem split: option.splits)
  then have step3: "assign_region_norm env a rc s3 = Inr s4"
    by (simp add: assign_region_norm_ok f3 s4_def d3_def)
  have f4: "frames s4 a = d3"
    by (simp add: s4_def)
  have prep: "d3 = prepare env d lc (uptime_col d) rc"
    unfolding prepare_def d3_def d2_def d1_def Let_def ..
  have s4_eq: "s4 = s\<lparr>frames := (frames s)(a := d3), next_addr := a + 1\<rparr>"
    by (simp add: s4_def s3_def s2_def s1_def)
  have "latency_check env p s =
          (region_loop (frames s4 a) lc (uptime_col d) (threshold_ms p) (regions p) Map.empty, s4)"
    using g lc rc
    by (simp add: latency_check_def copy f1 step1 step2 [unfolded uptime_col_def] step3 Let_def
        latency_col_def region_col_def uptime_col_def d_def [symmetric])
  then show ?thesis
    by (simp add: f4 prep s4_eq d_def a_def)
qed

lemma col_of_prepare_region:
  "col_of (case uco of None \<Rightarrow> df_setitem d lc (to_numeric env (col_of d lc))
           | Some uc \<Rightarrow> df_setitem (df_setitem d lc (to_numeric env (col_of d lc))) uc
               (to_numeric env (col_of (df_setitem d lc (to_numeric env (col_of d lc))) uc))) k =
     (if k = lc \<or> uco = Some k then to_numeric env (col_of d k) else col_of d k)"
  by (cases uco) (auto simp: col_of_setitem to_numeric_idem)

lemma prepare_region_norm:
  assumes "latency_col d = Some lc" and "region_col d = Some rc"
  shows "df_getitem (prepare env d lc (uptime_col d) rc) ''_region_norm'' =
           Inr (ObjCol (map Some (row_keys env d)))"
  using assms
  by (auto simp: prepare_def Let_def getitem_setitem col_of_prepare_region row_keys_def
      region_norm_strings)

lemma prepare_numeric:
  assumes "k = lc \<or> uco = Some k" and "k \<noteq> ''_region_norm''"
  shows "df_getitem (prepare env d lc uco rc) k = Inr (to_numeric env (col_of d k))"
  using assms
  by (cases uco) (auto simp: prepare_def Let_def getitem_setitem col_of_setitem to_numeric_idem)

lemma prepare_nonempty: "named_cols (prepare env d lc uco rc) \<noteq> []"
proof -
  have "set_column xs n c \<noteq> []" for xs n c
    by (induction xs n c rule: set_column.induct) auto
  then show ?thesis
    by (simp add: prepare_def Let_def df_setitem_def)
qed

lemma empty_mask:
  "named_cols d \<noteq> [] \<Longrightarrow> df_empty (df_mask d (map (\<lambda>k. k = key) ks)) \<longleftrightarrow> key \<notin> set ks"
  by (simp add: df_empty_def df_mask_def bool_sum_keys)

lemma masked_values:
  assumes "df_getitem d k = Inr (to_numeric env c)"
  shows "df_getitem (df_mask d (map (\<lambda>k. k = key) ks)) k =
           Inr (col_select (map (\<lambda>k. k = key) ks) (to_numeric env c))"
    and "col_floats (col_select (map (\<lambda>k. k = key) ks) (to_numeric env c)) =
           Inr (matched key ks (num_values (to_numeric env c)))"
proof -
  show "df_getitem (df_mask d (map (\<lambda>k. k = key) ks)) k =
           Inr (col_select (map (\<lambda>k. k = key) ks) (to_numeric env c))"
    using assms by (simp add: getitem_mask)
  show "col_floats (col_select (map (\<lambda>k. k = key) ks) (to_numeric env c)) =
           Inr (matched key ks (num_values (to_numeric env c)))"
    using num_values_select [OF col_floats_to_numeric] by (simp add: select_matched)
qed

lemma region_metrics_prepare:
  assumes lc: "latency_col d = Some lc" and rc: "region_col d = Some rc"
  shows "region_metrics (prepare env d lc (uptime_col d) rc) lc (uptime_col d) threshold region =
           Inr (region_entry env d threshold region)"
proof -
  define P where "P = prepare env d lc (uptime_col d) rc"
  define key where "key = lower (strip region)"
  define ks where "ks = row_keys env d"
  define keep where "keep = map (\<lambda>k. k = key) ks"
  define R where "R = df_mask P keep"
  define lat where "lat = matched key ks (coerced env d lc)"
  have norm: "df_getitem P ''_region_norm'' = Inr (ObjCol (map Some ks))"
    using prepare_region_norm [OF lc rc] by (simp add: P_def ks_def)
  have keep: "series_eq (ObjCol (map Some ks)) key = keep"
    by (simp add: keep_def)
  have empty: "df_empty R \<longleftrightarrow> key \<notin> set ks"
    using empty_mask [OF prepare_nonempty] by (simp add: R_def keep_def P_def)
  have lc_P: "df_getitem P lc = Inr (to_numeric env (col_of d lc))"
    using latency_not_region_norm lc by (simp add: P_def prepare_numeric latency_col_def)
  note lat_R = masked_values [OF lc_P, of key ks, folded keep_def R_def]
  have mean: "series_mean (col_select keep (to_numeric env (col_of d lc))) = Inr (mean_skipna lat)"
    by (simp add: series_mean_def lat_R(2) lat_def coerced_def)
  have quant: "series_quantile (col_select keep (to_numeric env (col_of d lc))) q =
                 Inr (quantile_skipna lat q)" for q
    by (simp add: series_quantile_def lat_R(2) lat_def coerced_def)
  have gt: "series_gt (col_select keep (to_numeric env (col_of d lc))) threshold =
              Inr (map (\<lambda>v. float_gt v threshold) lat)"
    by (simp add: series_gt_def lat_R(2) lat_def coerced_def)
  have up: "uptime_of R (uptime_col d) =
              Inr (case uptime_col d of None \<Rightarrow> None
                   | Some uc \<Rightarrow> Some (rescale (mean_skipna (matched key ks (coerced env d uc)))))"
  proof (cases "uptime_col d")
    case None
    then show ?thesis by (simp add: uptime_of_def)
  next
    case (Some uc)
    then have "uc \<noteq> ''_region_norm''"
      using uptime_not_region_norm by (simp add: uptime_col_def)
    then have "df_getitem P uc = Inr (to_numeric env (col_of d uc))"
      using Some by (simp add: P_def prepare_numeric)
    note up_R = masked_values [OF this, of key ks, folded keep_def R_def]
    show ?thesis
      by (simp add: Some uptime_of_def up_R series_mean_def rescale_def coerced_def)
  qed
  show ?thesis
    unfolding region_metrics_def P_def [symmetric] key_def [symmetric] Let_def
    by (simp add: norm keep R_def [symmetric] empty lat_R(1) mean quant gt up
        region_entry_def Let_def key_def [symmetric] ks_def [symmetric] lc lat_def [symmetric]
        bool_sum_map del: series_eq.simps split: option.splits)
qed

lemma region_loop_all:
  assumes "\<And>region. region_metrics df lc uco threshold region = Inr (f region)"
  shows "region_loop df lc uco threshold rs out =
           Inr (\<lambda>r. if r \<in> set rs then Some (f r) else out r)"
proof (induction rs arbitrary: out)
  case Nil
  show ?case by simp
next
  case (Cons r rs)
  show ?case
    by (auto simp: assms Cons.IH)
qed

lemma latency_check_result:
  assumes "loaded s = Some d" and "latency_col d = Some lc" and "region_col d = Some rc"
  shows "fst (latency_check env p s) =
           Inr (\<lambda>r. if r \<in> set (regions p) then Some (region_entry env d (threshold_ms p) r)
                     else None)"
proof -
  from assms(1) obtain g where g: "df_global s = Some g" and d: "frames s g = d"
    by (auto simp: loaded_def)
  show ?thesis
    using latency_check_prepare [of s g lc rc env p] assms(2,3)
    by (simp add: g d region_loop_all [OF region_metrics_prepare [OF assms(2,3)]])
qed

lemma region_entry_matched:
  "lower (strip r) \<in> set (row_keys env d) \<Longrightarrow> latency_col d = Some lc \<Longrightarrow>
   region_entry env d threshold r =
     \<lparr>avg_latency = Some (py_round (mean_skipna
          (matched (lower (strip r)) (row_keys env d) (coerced env d lc))) 3),
      p95_latency = Some (py_round (quantile_skipna
          (matched (lower (strip r)) (row_keys env d) (coerced env d lc)) (95 / 100)) 3),
      avg_uptime =
        (case uptime_col d of
           None \<Rightarrow> None
         | Some uc \<Rightarrow> Some (py_round (rescale (mean_skipna
             (matched (lower (strip r)) (row_keys env d) (coerced env d uc)))) 6)),
      breaches = length (filter (\<lambda>v. float_gt v threshold)
          (matched (lower (strip r)) (row_keys env d) (coerced env d lc)))\<rparr>"
  by (simp add: region_entry_def Let_def)

lemma region_entry_unmatched:
  "lower (strip r) \<notin> set (row_keys env d) \<Longrightarrow> region_entry env d threshold r = no_data"
  by (simp add: region_entry_def Let_def)

lemma latency_check_no_latency:
  assumes "loaded s = Some d" and "latency_col d = None"
  shows "fst (latency_check env p s) = Inl latency_missing"
  using assms
  by (auto simp: loaded_def latency_check_def df_copy_def latency_col_def Let_def)

lemma latency_check_no_region:
  assumes "loaded s = Some d" and "latency_col d = Some lc" and "region_col d = None"
  shows "fst (latency_check env p s) = Inl region_missing"
  using assms
  by (auto simp: loaded_def latency_check_def df_copy_def latency_col_def region_col_def Let_def)

lemma latency_check_unloaded:
  "df_global s = None \<Longrightarrow>
   latency_check env p s =
     (Inl (HTTPException 500 (''Telemetry CSV not loaded: '' @ format_opt (load_error s))), s)"
  by (simp add: latency_check_def)

text \<open>
  The state after a request: the globals are as before, one object was allocated, and no
  other object changed. The answer depends on the loaded table only.
\<close>

lemma latency_check_state:
  assumes "df_global s = Some g"
  shows "df_global (snd (latency_check env p s)) = df_global s"
    and "load_error (snd (latency_check env p s)) = load_error s"
    and "next_addr (snd (latency_check env p s)) = next_addr s + 1"
    and "a \<noteq> next_addr s \<Longrightarrow> frames (snd (latency_check env p s)) a = frames s a"
  using assms
  by (auto simp: latency_check_def df_copy_def assign_numeric_def assign_region_norm_def Let_def
      split: option.splits sum.splits)

lemma latency_check_fst_cong:
  assumes "df_global s = Some g" and "df_global t = Some h" and "frames s g = frames t h"
  shows "fst (latency_check env p s) = fst (latency_check env p t)"
  using assms
  by (auto simp: latency_check_def df_copy_def assign_numeric_def assign_region_norm_def Let_def
      split: option.splits sum.splits)

lemma serve_loaded:
  assumes "df_global s = Some g" and "g < next_addr s"
  shows "df_global (snd (serve env ps s)) = Some g \<and>
         load_error (snd (serve env ps s)) = load_error s \<and>
         frames (snd (serve env ps s)) g = frames s g \<and>
         g < next_addr (snd (serve env ps s)) \<and>
         fst (serve env ps s) = map (\<lambda>p. fst (latency_check env p s)) ps"
  using assms
proof (induction ps arbitrary: s)
  case Nil
  then show ?case by simp
next
  case (Cons p ps)
  define s1 where "s1 = snd (latency_check env p s)"
  have g1: "df_global s1 = Some g" and l1: "load_error s1 = load_error s"
    and n1: "g < next_addr s1" and f1: "frames s1 g = frames s g"
    using latency_check_state [OF Cons.prems(1), where env = env and p = p] Cons.prems
    by (simp_all add: s1_def)
  have same: "fst (latency_check env q s1) = fst (latency_check env q s)" for q
    using latency_check_fst_cong [OF g1 Cons.prems(1) f1] .
  have unfold: "serve env (p # ps) s =
      (fst (latency_check env p s) # fst (serve env ps s1), snd (serve env ps s1))"
    by (simp add: s1_def split_def Let_def)
  show ?case
    using Cons.IH [OF g1 n1] by (simp add: unfold l1 f1 same del: serve.simps)
qed

text \<open>
  The response of \<open>latency_check\<close> has exactly the submitted keys, and the no-data entry for
  a key whose normalised form is the key of no row.
\<close>

lemma latency_check_entries:
  assumes "loaded s = Some d" and "latency_col d = Some lc" and "region_col d = Some rc"
  shows "\<exists>out. fst (latency_check env p s) = Inr out \<and> dom out = set (regions p) \<and>
           (\<forall>r\<in>set (regions p).
              lower (strip r) \<notin> set (row_keys env d) \<longrightarrow> out r = Some no_data)"
  unfolding latency_check_result [OF assms]
  by (auto simp: region_entry_unmatched dom_def)

section \<open>The examples\<close>

lemma loaded_startup: "loaded (startup (Inr d)) = Some d"
  by (simp add: loaded_def startup_def)

lemma scenario_roles:
  "latency_col scenario_table = Some ''latency_ms''"
  "region_col scenario_table = Some ''region''"
  "uptime_col scenario_table = Some ''uptime''"
  by code_simp+

lemma text_roles:
  "latency_col text_table = Some ''rtt''"
  "region_col text_table = Some ''area''"
  "uptime_col text_table = Some ''up''"
  by code_simp+

lemma five_roles:
  "latency_col five_table = Some ''Latency''"
  "region_col five_table = Some ''Region''"
  by code_simp+

section \<open>The claims\<close>

text \<open>
  Claim C1: the response has one entry for each submitted region key, under the key as
  submitted, and a key whose normalised form matches no row gets the no-data entry instead of
  being left out. \<open>latency_check\<close> of src/app.py does this (\<open>latency_check_entries\<close>). The
  service of src/api/app.py does not: its loop skips a region without rows. On the scenario
  table the request for \<open>eu-west\<close> is answered with the empty mapping by \<open>check_latency\<close> and
  with the no-data entry by \<open>latency_check\<close>.
\<close>

theorem api_omits_empty_region:
  "check_latency scenario_table
     \<lparr>body_regions = Some [''eu-west''], body_threshold_ms = Some (Fl 150)\<rparr> = Inr Map.empty \<and>
   response_entry
     (fst (latency_check env \<lparr>regions = [''eu-west''], threshold_ms = Fl 150\<rparr>
        (startup (Inr scenario_table)))) ''eu-west'' = Some no_data"
proof
  show "check_latency scenario_table
     \<lparr>body_regions = Some [''eu-west''], body_threshold_ms = Some (Fl 150)\<rparr> = Inr Map.empty"
    by (simp add: check_latency_def scenario_table_def df_getitem_def df_mask_def df_empty_def
        bool_sum_def)
  show "response_entry
     (fst (latency_check env \<lparr>regions = [''eu-west''], threshold_ms = Fl 150\<rparr>
        (startup (Inr scenario_table)))) ''eu-west'' = Some no_data"
    by code_simp
qed

text \<open>
  Claim C2, for candidates written in lower case (as the three fixed lists are): when some
  candidate equals a column name up to case, the resolver returns a column that equals a
  candidate up to case, never one that only contains a candidate; the substring pass decides
  only when no candidate matches exactly, and it returns the first column in table order
  whose lowercased name contains some candidate.
\<close>

theorem find_column_exact_first:
  assumes lc: "\<forall>cand\<in>set cands. lower cand = cand"
  shows "((\<exists>cand\<in>set cands. \<exists>col\<in>set cols. lower col = lower cand) \<longrightarrow>
            (\<exists>col cand. find_column cols cands = Some col \<and> col \<in> set cols \<and>
                         cand \<in> set cands \<and> lower col = lower cand)) \<and>
         (\<not> (\<exists>cand\<in>set cands. \<exists>col\<in>set cols. lower col = lower cand) \<longrightarrow>
            find_column cols cands =
              List.find (\<lambda>col. \<exists>cand\<in>set cands. contains cand (lower col)) cols)"
proof (intro conjI impI)
  assume "\<exists>cand\<in>set cands. \<exists>col\<in>set cols. lower col = lower cand"
  with lc have "\<exists>cand\<in>set cands. \<exists>col\<in>set cols. lower col = cand"
    by auto
  then have "List.find (\<lambda>cand. \<exists>col\<in>set cols. lower col = cand) cands \<noteq> None"
    by (auto simp: find_None_iff)
  then obtain cand where f: "List.find (\<lambda>cand. \<exists>col\<in>set cols. lower col = cand) cands = Some cand"
    by blast
  then have m: "cand \<in> set cands" and e: "\<exists>col\<in>set cols. lower col = cand"
    by (auto simp: find_Some_iff)
  from e have "List.find (\<lambda>col. lower col = cand) (rev cols) \<noteq> None"
    by (auto simp: find_None_iff)
  then obtain col where c: "List.find (\<lambda>col. lower col = cand) (rev cols) = Some col"
    by blast
  then have "col \<in> set cols" "lower col = cand"
    using find_SomeD [of "\<lambda>col. lower col = cand" "rev cols" col] by auto
  with f c m lc show "\<exists>col cand. find_column cols cands = Some col \<and> col \<in> set cols \<and>
                         cand \<in> set cands \<and> lower col = lower cand"
    by (auto simp: find_column_char)
next
  assume "\<not> (\<exists>cand\<in>set cands. \<exists>col\<in>set cols. lower col = lower cand)"
  with lc have "List.find (\<lambda>cand. \<exists>col\<in>set cols. lower col = cand) cands = None"
    by (auto simp: find_None_iff)
  then show "find_column cols cands =
              List.find (\<lambda>col. \<exists>cand\<in>set cands. contains cand (lower col)) cols"
    by (simp add: find_column_char)
qed

theorem find_column_exact_first_witness:
  "find_column [''my_latency'', ''Latency_MS'', ''ping''] latency_candidates = Some ''Latency_MS'' \<and>
   (\<exists>col cand. find_column [''my_latency'', ''Latency_MS'', ''ping''] latency_candidates = Some col \<and>
       col \<in> set [''my_latency'', ''Latency_MS'', ''ping''] \<and> cand \<in> set latency_candidates \<and> lower col = lower cand)"
  using find_column_exact_first [of latency_candidates "[''my_latency'', ''Latency_MS'', ''ping'']"]
  by (simp add: latency_candidates_def lower_def lower_char_def find_column_def lower_dict_def)

text \<open>
  Without the restriction to lower-case candidates the statement fails: a candidate is
  compared as it is with the lowercased column names, so a candidate with an upper-case
  letter matches no column, not even the column of the same name.
\<close>

theorem find_column_mixed_case_candidate:
  "lower ''Latency'' = lower ''Latency'' \<and> ''Latency'' \<in> set [''Latency''] \<and>
   find_column [''Latency''] [''Latency''] = None"
  by (simp add: find_column_def lower_dict_def lower_def lower_char_def)

text \<open>
  Claim C3: for a requested region with at least one matched row, \<open>avg_uptime\<close> is null
  when no uptime column was resolved; otherwise it is the mean of the coerced uptime values
  of the matched rows, unchanged when that mean is at most 1.5 and divided by 100 when it
  is greater, rounded to 6 decimal digits. (A mean of no value is NaN and is reported as
  NaN.)
\<close>

theorem avg_uptime_rescaled:
  assumes "loaded s = Some d" and "latency_col d = Some lc" and "region_col d = Some rc"
    and "r \<in> set (regions p)" and "lower (strip r) \<in> set (row_keys env d)"
  shows "\<exists>out m. fst (latency_check env p s) = Inr out \<and> out r = Some m \<and>
           (case uptime_col d of
              None \<Rightarrow> avg_uptime m = None
            | Some uc \<Rightarrow>
                (case mean_skipna (matched (lower (strip r)) (row_keys env d) (coerced env d uc)) of
                   NaN \<Rightarrow> avg_uptime m = Some NaN
                 | Fl x \<Rightarrow>
                     avg_uptime m = Some (py_round (Fl (if x \<le> 3 / 2 then x else x / 100)) 6)))"
  unfolding latency_check_result [OF assms(1-3)]
  using assms(4,5)
  by (auto simp: region_entry_matched [OF assms(5,2)] rescale_def
      split: option.splits pyfloat.splits)

theorem avg_uptime_rescaled_witness:
  "(\<exists>out m. fst (latency_check sample_env \<lparr>regions = [''us-east''], threshold_ms = Fl 150\<rparr>
                 (startup (Inr scenario_table))) = Inr out \<and>
            out ''us-east'' = Some m \<and> avg_uptime m = Some (Fl (49995 / 100000))) \<and>
   (\<exists>out m. fst (latency_check sample_env \<lparr>regions = ['' North''], threshold_ms = Fl 150\<rparr>
                 (startup (Inr text_table))) = Inr out \<and>
            out '' North'' = Some m \<and> avg_uptime m = Some (Fl (3 / 4)))"
proof
  have key: "lower (strip ''us-east'') \<in> set (row_keys sample_env scenario_table)"
    by code_simp
  have raw: "mean_skipna (matched (lower (strip ''us-east'')) (row_keys sample_env scenario_table)
               (coerced sample_env scenario_table ''uptime'')) = Fl (49995 / 1000)"
    by code_simp
  have rnd: "round_half_even 499950 = 499950"
    by code_simp
  show "\<exists>out m. fst (latency_check sample_env \<lparr>regions = [''us-east''], threshold_ms = Fl 150\<rparr>
                 (startup (Inr scenario_table))) = Inr out \<and>
            out ''us-east'' = Some m \<and> avg_uptime m = Some (Fl (49995 / 100000))"
    using avg_uptime_rescaled [OF loaded_startup scenario_roles(1,2) _ key,
        of "\<lparr>regions = [''us-east''], threshold_ms = Fl 150\<rparr>"]
    by (simp add: scenario_roles(3) raw rnd)
next
  have key: "lower (strip '' North'') \<in> set (row_keys sample_env text_table)"
    by code_simp
  have raw: "mean_skipna (matched (lower (strip '' North'')) (row_keys sample_env text_table)
               (coerced sample_env text_table ''up'')) = Fl (3 / 4)"
    by code_simp
  have rnd: "round_half_even 750000 = 750000"
    by code_simp
  show "\<exists>out m. fst (latency_check sample_env \<lparr>regions = ['' North''], threshold_ms = Fl 150\<rparr>
                 (startup (Inr text_table))) = Inr out \<and>
            out '' North'' = Some m \<and> avg_uptime m = Some (Fl (3 / 4))"
    using avg_uptime_rescaled [OF loaded_startup text_roles(1,2) _ key,
        of "\<lparr>regions = ['' North''], threshold_ms = Fl 150\<rparr>"]
    by (simp add: text_roles(3) raw rnd)
qed

text \<open>
  Claim C4: \<open>breaches\<close> is the number of rows whose normalised key is the requested one and
  whose coerced latency is strictly greater than the threshold. A latency equal to the
  threshold is not greater than it, and neither is a missing latency.
\<close>

theorem breaches_count:
  assumes "loaded s = Some d" and "latency_col d = Some lc" and "region_col d = Some rc"
    and "wf_frame d" and "r \<in> set (regions p)"
  shows "\<exists>out m. fst (latency_check env p s) = Inr out \<and> out r = Some m \<and>
           breaches m =
             card {i. i < nrows d \<and> row_keys env d ! i = lower (strip r) \<and>
                      float_gt (coerced env d lc ! i) (threshold_ms p)} \<and>
           \<not> float_gt (threshold_ms p) (threshold_ms p) \<and>
           \<not> float_gt NaN (threshold_ms p)"
proof -
  have lc_mem: "lc \<in> set (df_columns d)"
    using assms(2) find_column_SomeD(1) by (simp add: latency_col_def)
  note len = length_row_keys [OF assms(4,3), of env] length_coerced [OF assms(4) lc_mem, of env]
  note count = length_filter_matched [OF len, of "\<lambda>v. float_gt v (threshold_ms p)" "lower (strip r)"]
  have self: "\<not> float_gt t t" for t
    by (cases t) simp_all
  have breaches: "breaches (region_entry env d (threshold_ms p) r) =
      card {i. i < nrows d \<and> row_keys env d ! i = lower (strip r) \<and>
               float_gt (coerced env d lc ! i) (threshold_ms p)}"
  proof (cases "lower (strip r) \<in> set (row_keys env d)")
    case True
    then show ?thesis
      by (simp add: region_entry_matched [OF True assms(2)] count)
  next
    case False
    then have "{i. i < nrows d \<and> row_keys env d ! i = lower (strip r) \<and>
               float_gt (coerced env d lc ! i) (threshold_ms p)} = {}"
      using len(1) by (auto simp: in_set_conv_nth)
    with False show ?thesis
      by (simp add: region_entry_unmatched no_data_def)
  qed
  show ?thesis
    unfolding latency_check_result [OF assms(1-3)]
    using assms(5) by (simp add: breaches self)
qed

theorem breaches_count_witness:
  "\<exists>out m. fst (latency_check sample_env \<lparr>regions = [''US-EAST''], threshold_ms = Fl 100\<rparr>
                (startup (Inr scenario_table))) = Inr out \<and>
           out ''US-EAST'' = Some m \<and> breaches m = 1 \<and>
           card {i. i < nrows scenario_table \<and>
                    row_keys sample_env scenario_table ! i = lower (strip ''US-EAST'') \<and>
                    float_gt (coerced sample_env scenario_table ''latency_ms'' ! i) (Fl 100)} = 1"
proof -
  have wf: "wf_frame scenario_table"
    by code_simp
  have val: "map_option breaches (response_entry
      (fst (latency_check sample_env \<lparr>regions = [''US-EAST''], threshold_ms = Fl 100\<rparr>
         (startup (Inr scenario_table)))) ''US-EAST'') = Some 1"
    by code_simp
  from breaches_count [OF loaded_startup scenario_roles(1,2) wf,
      of "''US-EAST''" "\<lparr>regions = [''US-EAST''], threshold_ms = Fl 100\<rparr>" sample_env]
  obtain out m where
    "fst (latency_check sample_env \<lparr>regions = [''US-EAST''], threshold_ms = Fl 100\<rparr>
       (startup (Inr scenario_table))) = Inr out"
    "out ''US-EAST'' = Some m"
    "breaches m = card {i. i < nrows scenario_table \<and>
                    row_keys sample_env scenario_table ! i = lower (strip ''US-EAST'') \<and>
                    float_gt (coerced sample_env scenario_table ''latency_ms'' ! i) (Fl 100)}"
    by auto
  with val show ?thesis
    by (auto simp: response_entry_def)
qed

text \<open>
  Claim C5: \<open>p95_latency\<close> interpolates linearly between the two nearest ranks of the
  sorted non-missing latencies of the matched rows: with \<open>n\<close> values the position is
  \<open>(n - 1) * 0.95\<close>, both ranks are in range, and the result is rounded to 3 decimal
  digits. For the values 10, 20, 30, 40, 50 the percentile is 48.
\<close>

theorem p95_linear_interpolation:
  assumes "loaded s = Some d" and "latency_col d = Some lc" and "region_col d = Some rc"
    and "r \<in> set (regions p)" and "lower (strip r) \<in> set (row_keys env d)"
  shows "\<exists>out m. fst (latency_check env p s) = Inr out \<and> out r = Some m \<and>
           (let xs = sort (dropna (matched (lower (strip r)) (row_keys env d) (coerced env d lc)));
                pos = of_nat (length xs - 1) * (95 / 100);
                lo = nat \<lfloor>pos\<rfloor>
            in p95_latency m =
                 Some (py_round
                   (if xs = [] then NaN
                    else if length xs = 1 then Fl (xs ! 0)
                    else Fl (xs ! lo + (xs ! (lo + 1) - xs ! lo) * (pos - of_nat lo))) 3) \<and>
               (xs = [] \<or> length xs = 1 \<or> lo + 1 < length xs)) \<and>
           quantile_skipna (map Fl [10, 20, 30, 40, 50]) (95 / 100) = Fl 48"
proof -
  define vs where "vs = matched (lower (strip r)) (row_keys env d) (coerced env d lc)"
  have q: "quantile_skipna vs (95 / 100) =
      (let xs = sort (dropna vs); pos = of_nat (length xs - 1) * (95 / 100); lo = nat \<lfloor>pos\<rfloor>
       in if xs = [] then NaN
          else if length xs = 1 then Fl (xs ! 0)
          else Fl (xs ! lo + (xs ! (lo + 1) - xs ! lo) * (pos - of_nat lo)))"
  proof (cases "dropna vs = []")
    case True
    then show ?thesis by (simp add: quantile_skipna_def)
  next
    case False
    then have ne: "sort (dropna vs) \<noteq> []"
      by (metis length_0_conv length_sort)
    from interpolate_ranks [OF ne] False ne show ?thesis
      by (simp add: quantile_skipna_def Let_def)
  qed
  have range: "xs = [] \<or> length xs = 1 \<or>
      nat \<lfloor>(of_nat (length xs - 1) :: rat) * (95 / 100)\<rfloor> + 1 < length xs" for xs :: "rat list"
  proof (cases "2 \<le> length xs")
    case True
    from upper_rank_in_range [OF this] show ?thesis
      by blast
  next
    case False
    then have "length xs = 0 \<or> length xs = 1"
      by linarith
    then show ?thesis
      by auto
  qed
  have five: "quantile_skipna (map Fl [10, 20, 30, 40, 50]) (95 / 100) = Fl 48"
    by code_simp
  define out where "out = (\<lambda>r. if r \<in> set (regions p)
      then Some (region_entry env d (threshold_ms p) r) else None)"
  define m where "m = region_entry env d (threshold_ms p) r"
  have res: "fst (latency_check env p s) = Inr out"
    unfolding out_def by (rule latency_check_result [OF assms(1-3)])
  have ent: "out r = Some m"
    using assms(4) by (simp add: out_def m_def)
  have p95: "p95_latency m = Some (py_round (quantile_skipna vs (95 / 100)) 3)"
    by (simp add: m_def region_entry_matched [OF assms(5,2)] vs_def)
  have ranks: "(let xs = sort (dropna vs);
                pos = of_nat (length xs - 1) * (95 / 100);
                lo = nat \<lfloor>pos\<rfloor>
            in p95_latency m =
                 Some (py_round
                   (if xs = [] then NaN
                    else if length xs = 1 then Fl (xs ! 0)
                    else Fl (xs ! lo + (xs ! (lo + 1) - xs ! lo) * (pos - of_nat lo))) 3) \<and>
               (xs = [] \<or> length xs = 1 \<or> lo + 1 < length xs))"
    unfolding p95 q Let_def by (intro conjI refl range)
  from res ent ranks [unfolded vs_def] five show ?thesis
    by blast
qed

theorem p95_linear_interpolation_witness:
  "\<exists>out m. fst (latency_check sample_env \<lparr>regions = [''EU''], threshold_ms = Fl 45\<rparr>
                (startup (Inr five_table))) = Inr out \<and>
           out ''EU'' = Some m \<and> p95_latency m = Some (Fl 48)"
proof -
  have key: "lower (strip ''EU'') \<in> set (row_keys sample_env five_table)"
    by code_simp
  have val: "map_option p95_latency (response_entry
      (fst (latency_check sample_env \<lparr>regions = [''EU''], threshold_ms = Fl 45\<rparr>
         (startup (Inr five_table)))) ''EU'') = Some (Some (Fl 48))"
    by code_simp
  from p95_linear_interpolation [OF loaded_startup five_roles _ key,
      of "\<lparr>regions = [''EU''], threshold_ms = Fl 45\<rparr>"]
  obtain out m where
    "fst (latency_check sample_env \<lparr>regions = [''EU''], threshold_ms = Fl 45\<rparr>
       (startup (Inr five_table))) = Inr out"
    "out ''EU'' = Some m"
    by auto
  with val show ?thesis
    by (auto simp: response_entry_def)
qed

text \<open>
  Claim C6: the end-to-end scenario. Both rows have the key \<open>us-east\<close>; the raw mean uptime
  is 49.995; the entry is \<open>avg_latency = 200\<close>, \<open>p95_latency = 290\<close>, \<open>avg_uptime = 0.49995\<close>,
  \<open>breaches = 1\<close>.
\<close>

theorem scenario_us_east:
  "row_keys env scenario_table = [''us-east'', ''us-east''] \<and>
   mean_skipna (matched ''us-east'' (row_keys env scenario_table)
     (coerced env scenario_table ''uptime'')) = Fl (49995 / 1000) \<and>
   response_entry
     (fst (latency_check env \<lparr>regions = [''us-east''], threshold_ms = Fl 150\<rparr>
        (startup (Inr scenario_table)))) ''us-east'' =
     Some \<lparr>avg_latency = Some (Fl 200), p95_latency = Some (Fl 290),
           avg_uptime = Some (Fl (49995 / 100000)), breaches = 1\<rparr>"
  by code_simp

text \<open>
  Claim C7, as the code has it: the two roles are checked one after the other and the first
  failure ends the request. When the latency role does not resolve, the request fails with
  status 400 and a message about the latency column that does not mention the region
  role; the region role is reported, alone, when latency resolves and region does not.
\<close>

theorem schema_failure_first_role:
  assumes "loaded s = Some d"
  shows "(latency_col d = None \<longrightarrow>
            (\<exists>msg. fst (latency_check env p s) = Inl (HTTPException 400 msg) \<and>
                   contains ''latency column'' msg \<and> \<not> contains ''region'' msg)) \<and>
         (latency_col d \<noteq> None \<and> region_col d = None \<longrightarrow>
            (\<exists>msg. fst (latency_check env p s) = Inl (HTTPException 400 msg) \<and>
                   contains ''region column'' msg \<and> \<not> contains ''latency'' msg))"
proof (intro conjI impI)
  assume "latency_col d = None"
  from latency_check_no_latency [OF assms this]
  show "\<exists>msg. fst (latency_check env p s) = Inl (HTTPException 400 msg) \<and>
                   contains ''latency column'' msg \<and> \<not> contains ''region'' msg"
    by (simp add: latency_missing_def)
next
  assume "latency_col d \<noteq> None \<and> region_col d = None"
  then obtain lc where "latency_col d = Some lc" and "region_col d = None"
    by auto
  from latency_check_no_region [OF assms this]
  show "\<exists>msg. fst (latency_check env p s) = Inl (HTTPException 400 msg) \<and>
                   contains ''region column'' msg \<and> \<not> contains ''latency'' msg"
    by (simp add: region_missing_def)
qed

theorem schema_failure_first_role_witness:
  "(\<exists>msg. fst (latency_check sample_env \<lparr>regions = [''us-east''], threshold_ms = Fl 150\<rparr>
               (startup (Inr no_role_table))) = Inl (HTTPException 400 msg) \<and>
          contains ''latency column'' msg \<and> \<not> contains ''region'' msg) \<and>
   (\<exists>msg. fst (latency_check sample_env \<lparr>regions = [''us-east''], threshold_ms = Fl 150\<rparr>
               (startup (Inr \<lparr>nrows = 1, named_cols = [(''ping'', IntCol [5])]\<rparr>))) =
            Inl (HTTPException 400 msg) \<and>
          contains ''region column'' msg \<and> \<not> contains ''latency'' msg)"
proof
  have lat: "latency_col no_role_table = None"
    by code_simp
  show "\<exists>msg. fst (latency_check sample_env \<lparr>regions = [''us-east''], threshold_ms = Fl 150\<rparr>
               (startup (Inr no_role_table))) = Inl (HTTPException 400 msg) \<and>
          contains ''latency column'' msg \<and> \<not> contains ''region'' msg"
    using schema_failure_first_role [OF loaded_startup, of no_role_table sample_env
        "\<lparr>regions = [''us-east''], threshold_ms = Fl 150\<rparr>"] lat
    by simp
next
  have lat: "latency_col \<lparr>nrows = 1, named_cols = [(''ping'', IntCol [5])]\<rparr> = Some ''ping''"
    by code_simp
  have reg: "region_col \<lparr>nrows = 1, named_cols = [(''ping'', IntCol [5])]\<rparr> = None"
    by code_simp
  show "\<exists>msg. fst (latency_check sample_env \<lparr>regions = [''us-east''], threshold_ms = Fl 150\<rparr>
               (startup (Inr \<lparr>nrows = 1, named_cols = [(''ping'', IntCol [5])]\<rparr>))) =
            Inl (HTTPException 400 msg) \<and>
          contains ''region column'' msg \<and> \<not> contains ''latency'' msg"
    using schema_failure_first_role [OF loaded_startup,
        of "\<lparr>nrows = 1, named_cols = [(''ping'', IntCol [5])]\<rparr>" sample_env
        "\<lparr>regions = [''us-east''], threshold_ms = Fl 150\<rparr>"] lat reg
    by simp
qed

text \<open>
  On the table with the columns \<open>timestamp\<close> and \<open>value\<close> neither role resolves, and the
  error cites the latency role only: it does not mention the region role or its
  candidate \<open>location\<close>.
\<close>

theorem no_role_cites_latency_only:
  "latency_col no_role_table = None \<and> region_col no_role_table = None \<and>
   fst (latency_check sample_env \<lparr>regions = [''us-east''], threshold_ms = Fl 150\<rparr>
          (startup (Inr no_role_table))) =
     Inl (HTTPException 400
       ''Could not detect latency column (expected names: latency_ms, latency, rtt, ping_ms)'') \<and>
   \<not> contains ''region''
       ''Could not detect latency column (expected names: latency_ms, latency, rtt, ping_ms)'' \<and>
   \<not> contains ''location''
       ''Could not detect latency column (expected names: latency_ms, latency, rtt, ping_ms)''"
proof -
  have tab: "loaded (startup (Inr no_role_table)) = Some no_role_table"
    by (simp add: loaded_def startup_def)
  have lat: "latency_col no_role_table = None"
    by code_simp
  have reg: "region_col no_role_table = None"
    by code_simp
  have msg: "\<not> contains ''region''
       ''Could not detect latency column (expected names: latency_ms, latency, rtt, ping_ms)'' \<and>
   \<not> contains ''location''
       ''Could not detect latency column (expected names: latency_ms, latency, rtt, ping_ms)''"
    by code_simp
  from latency_check_no_latency [OF tab lat] lat reg msg show ?thesis
    by (simp only: latency_missing_def simp_thms)
qed

text \<open>
  Claim C8: when the load failed, every request, whatever its payload, fails with status
  500 and a detail that carries the load failure message, and it leaves the state as it
  was (no working copy is made); so does every request of any sequence of requests.
\<close>

theorem load_failure_every_query:
  "latency_check env p (startup (Inl msg)) =
     (Inl (HTTPException 500 (''Telemetry CSV not loaded: '' @ msg)), startup (Inl msg)) \<and>
   serve env ps (startup (Inl msg)) =
     (map (\<lambda>q. Inl (HTTPException 500 (''Telemetry CSV not loaded: '' @ msg))) ps,
      startup (Inl msg))"
proof -
  have one: "latency_check env q (startup (Inl msg)) =
     (Inl (HTTPException 500 (''Telemetry CSV not loaded: '' @ msg)), startup (Inl msg))" for q
    by (simp add: latency_check_unloaded startup_def format_opt_def)
  have "serve env ps (startup (Inl msg)) =
     (map (\<lambda>q. Inl (HTTPException 500 (''Telemetry CSV not loaded: '' @ msg))) ps,
      startup (Inl msg))"
    by (induction ps) (simp_all add: one)
  with one show ?thesis by simp
qed

text \<open>
  Claim C9: a request does not change the loaded table: the table the state holds after a
  request, or after any sequence of requests, is the table it held before, and every
  request of a sequence gets the answer it would get as the first one. The table is an
  allocated object of the store, as after \<open>startup\<close>.
\<close>

theorem query_keeps_table:
  assumes "df_global s = Some g" and "g < next_addr s"
  shows "loaded (snd (latency_check env p s)) = loaded s \<and>
         loaded (snd (serve env ps s)) = loaded s \<and>
         fst (serve env ps s) = map (\<lambda>q. fst (latency_check env q s)) ps"
proof -
  have "loaded (snd (latency_check env p s)) = loaded s"
    using latency_check_state [OF assms(1), where env = env and p = p] assms
    by (simp add: loaded_def)
  then show ?thesis
    using serve_loaded [OF assms, of env ps] assms(1) by (simp add: loaded_def)
qed

theorem query_keeps_table_witness:
  "loaded (snd (latency_check sample_env \<lparr>regions = [''us-east''], threshold_ms = Fl 150\<rparr>
                  (startup (Inr scenario_table)))) = Some scenario_table \<and>
   loaded (snd (serve sample_env
                  [\<lparr>regions = [''us-east''], threshold_ms = Fl 150\<rparr>,
                   \<lparr>regions = [''eu-west'', ''US-East''], threshold_ms = Fl 50\<rparr>]
                  (startup (Inr scenario_table)))) = Some scenario_table \<and>
   fst (serve sample_env
          [\<lparr>regions = [''us-east''], threshold_ms = Fl 150\<rparr>,
           \<lparr>regions = [''eu-west'', ''US-East''], threshold_ms = Fl 50\<rparr>]
          (startup (Inr scenario_table))) =
     [fst (latency_check sample_env \<lparr>regions = [''us-east''], threshold_ms = Fl 150\<rparr>
            (startup (Inr scenario_table))),
      fst (latency_check sample_env \<lparr>regions = [''eu-west'', ''US-East''], threshold_ms = Fl 50\<rparr>
            (startup (Inr scenario_table)))]"
proof -
  have g: "df_global (startup (Inr scenario_table)) = Some 0"
    and n: "0 < next_addr (startup (Inr scenario_table))"
    by (simp_all add: startup_def)
  from query_keeps_table [OF g n, of sample_env
      "\<lparr>regions = [''us-east''], threshold_ms = Fl 150\<rparr>"
      "[\<lparr>regions = [''us-east''], threshold_ms = Fl 150\<rparr>,
        \<lparr>regions = [''eu-west'', ''US-East''], threshold_ms = Fl 50\<rparr>]"]
  show ?thesis
    by (simp add: loaded_startup)
qed

text \<open>
  Claim C10: in the entry of a requested region, \<open>avg_latency\<close> and \<open>p95_latency\<close> are null
  exactly when no row has the requested key; when rows match and every matched latency is
  missing, both are NaN, not null.
\<close>

theorem latency_null_iff_no_rows:
  assumes "loaded s = Some d" and "latency_col d = Some lc" and "region_col d = Some rc"
    and "r \<in> set (regions p)"
  shows "\<exists>out m. fst (latency_check env p s) = Inr out \<and> out r = Some m \<and>
           (avg_latency m = None \<longleftrightarrow> lower (strip r) \<notin> set (row_keys env d)) \<and>
           (p95_latency m = None \<longleftrightarrow> lower (strip r) \<notin> set (row_keys env d)) \<and>
           (lower (strip r) \<in> set (row_keys env d) \<and>
            list_all (\<lambda>v. v = NaN) (matched (lower (strip r)) (row_keys env d) (coerced env d lc))
            \<longrightarrow> avg_latency m = Some NaN \<and> p95_latency m = Some NaN)"
proof (cases "lower (strip r) \<in> set (row_keys env d)")
  case True
  show ?thesis
    unfolding latency_check_result [OF assms(1-3)]
    using assms(4) True
    by (auto simp: region_entry_matched [OF True assms(2)] mean_skipna_def quantile_skipna_def
        dropna_all_nan)
next
  case False
  show ?thesis
    unfolding latency_check_result [OF assms(1-3)]
    using assms(4) False
    by (simp add: region_entry_unmatched no_data_def)
qed

theorem latency_null_iff_no_rows_witness:
  "(\<exists>out m. fst (latency_check sample_env \<lparr>regions = ['' North'', ''west''], threshold_ms = Fl 150\<rparr>
                 (startup (Inr text_table))) = Inr out \<and>
            out '' North'' = Some m \<and> avg_latency m = Some NaN \<and> p95_latency m = Some NaN) \<and>
   (\<exists>out m. fst (latency_check sample_env \<lparr>regions = ['' North'', ''west''], threshold_ms = Fl 150\<rparr>
                 (startup (Inr text_table))) = Inr out \<and>
            out ''west'' = Some m \<and> avg_latency m = None \<and> p95_latency m = None)"
proof
  have key: "lower (strip '' North'') \<in> set (row_keys sample_env text_table)"
    by code_simp
  have nan: "list_all (\<lambda>v. v = NaN)
      (matched (lower (strip '' North'')) (row_keys sample_env text_table)
         (coerced sample_env text_table ''rtt''))"
    by code_simp
  show "\<exists>out m. fst (latency_check sample_env \<lparr>regions = ['' North'', ''west''], threshold_ms = Fl 150\<rparr>
                 (startup (Inr text_table))) = Inr out \<and>
            out '' North'' = Some m \<and> avg_latency m = Some NaN \<and> p95_latency m = Some NaN"
    using latency_null_iff_no_rows [OF loaded_startup text_roles(1,2),
        of "'' North''" "\<lparr>regions = ['' North'', ''west''], threshold_ms = Fl 150\<rparr>" sample_env]
      key nan
    by auto
next
  have key: "lower (strip ''west'') \<notin> set (row_keys sample_env text_table)"
    by code_simp
  show "\<exists>out m. fst (latency_check sample_env \<lparr>regions = ['' North'', ''west''], threshold_ms = Fl 150\<rparr>
                 (startup (Inr text_table))) = Inr out \<and>
            out ''west'' = Some m \<and> avg_latency m = None \<and> p95_latency m = None"
    using latency_null_iff_no_rows [OF loaded_startup text_roles(1,2),
        of "''west''" "\<lparr>regions = ['' North'', ''west''], threshold_ms = Fl 150\<rparr>" sample_env]
      key
    by auto
qed

end
